theory Spec2Isabelle
  imports Main
begin

section \<open>Python values, exceptions and attribute mappings\<close>

text \<open>
  The widgets of \<^verbatim>\<open>markitup/widgets.py\<close> handle three kinds of data: field values
  (\<^verbatim>\<open>None\<close>, plain text, or an object such as a markup value that carries a
  \<^verbatim>\<open>raw\<close> attribute), attribute dictionaries (keys are strings) and rendered markup.
  An object is given by its attribute table. An entry of the table is what reading the
  attribute does: it yields a value (\<open>Inr\<close>), or the accessor raises an exception
  (\<open>Inl\<close>), which can be any exception. Reading an attribute that the table does not
  hold raises \<^verbatim>\<open>AttributeError\<close>, as it does for \<^verbatim>\<open>None\<close>, booleans and strings, none
  of which has an attribute \<^verbatim>\<open>raw\<close>.
\<close>

datatype error =
    TypeError
  | KeyError
  | ValueError
  | AttributeError
  | NoReverseMatch
  | HostError string

datatype pyval =
    PyNone
  | PyBool bool
  | PyStr string
  | PyObj "(string \<times> (error + pyval)) list"

type_synonym attrs = "string \<rightharpoonup> pyval"

text \<open>Markup is text that is either marked as safe (pre-escaped) or not.\<close>

datatype rendered =
    SafeText string
  | PlainText string

fun text_of :: "rendered \<Rightarrow> string" where
  "text_of (SafeText s) = s"
| "text_of (PlainText s) = s"

text \<open>
  \<^verbatim>\<open>html += more\<close>: the sum of two safe strings is safe, every other sum is a plain
  string. \<^verbatim>\<open>mark_safe\<close> marks a text as safe whatever it was.
\<close>

fun add_rendered :: "rendered \<Rightarrow> rendered \<Rightarrow> rendered" where
  "add_rendered (SafeText a) (SafeText b) = SafeText (a @ b)"
| "add_rendered a b = PlainText (text_of a @ text_of b)"

definition mark_safe :: "rendered \<Rightarrow> rendered" where
  "mark_safe r = SafeText (text_of r)"

text \<open>\<^verbatim>\<open>value.raw\<close>: the attribute read of line 79.\<close>

fun get_raw :: "pyval \<Rightarrow> error + pyval" where
  "get_raw (PyObj fields) =
     (case map_of fields ''raw'' of Some outcome \<Rightarrow> outcome | None \<Rightarrow> Inl AttributeError)"
| "get_raw v = Inl AttributeError"

text \<open>
  An attribute read may run arbitrary code of the object (a property). The reads a
  function performs are therefore part of its result: a list of events, in order.
\<close>

datatype event = GetAttr pyval string

section \<open>The host framework and the settings\<close>

text \<open>
  The form framework is not part of the repository. Its methods are parameters of the
  model, collected in one record:
  \<^item> \<open>new_style_build_attrs\<close> is the flag of lines 22 to 24: whether the framework's
    \<^verbatim>\<open>Widget.build_attrs\<close> has a parameter \<^verbatim>\<open>base_attrs\<close>;
  \<^item> \<open>Widget_build_attrs_new\<close> is \<^verbatim>\<open>Widget.build_attrs(self, base_attrs, extra_attrs)\<close>
    and \<open>Widget_build_attrs_old\<close> is \<^verbatim>\<open>Widget.build_attrs(self, extra_attrs, **kwargs)\<close>;
    both get \<^verbatim>\<open>self.attrs\<close> first;
  \<^item> \<open>Textarea_init\<close> and \<open>AdminTextareaWidget_init\<close> are the constructors of the two
    text-area base classes: from the constructor's \<^verbatim>\<open>attrs\<close> to the widget's
    \<^verbatim>\<open>self.attrs\<close>;
  \<^item> \<open>Textarea_render\<close> is \<^verbatim>\<open>forms.Textarea.render(self, name, value, attrs)\<close>;
  \<^item> \<open>reverse\<close> resolves a route name, \<open>render_to_string\<close> renders a template on a
    context.
  A call that raises returns \<open>Inl\<close> of the exception.
\<close>

record host =
  new_style_build_attrs :: bool
  Widget_build_attrs_new :: "attrs \<Rightarrow> attrs \<Rightarrow> attrs option \<Rightarrow> attrs"
  Widget_build_attrs_old :: "attrs \<Rightarrow> attrs option \<Rightarrow> attrs \<Rightarrow> attrs"
  Textarea_init :: "attrs option \<Rightarrow> attrs"
  AdminTextareaWidget_init :: "attrs option \<Rightarrow> attrs"
  Textarea_render :: "attrs \<Rightarrow> string \<Rightarrow> pyval \<Rightarrow> attrs option \<Rightarrow> error + rendered"
  reverse :: "string \<Rightarrow> error + string"
  render_to_string :: "string \<Rightarrow> attrs \<Rightarrow> error + rendered"

text \<open>
  The module \<^verbatim>\<open>markitup.settings\<close> (imported in line 13) holds four process-wide
  values; \<^verbatim>\<open>markitup.util.absolute_url\<close> (line 14) is a function from a path to a URL.
  Both are parameters of the model.
\<close>

record settings =
  MARKITUP_SET :: string
  MARKITUP_SKIN :: string
  MARKITUP_AUTO_PREVIEW :: bool
  JQUERY_URL :: "string option"

section \<open>BuildAttrsCompat\<close>

text \<open>
  The hook \<^verbatim>\<open>build_attrs_extra\<close> is a method: a subclass may override it. The
  functions below take the hook of the widget's class as the argument \<open>hook\<close>;
  \<open>build_attrs_extra\<close> is the default of lines 48 to 50.
\<close>

definition build_attrs_extra :: "attrs \<Rightarrow> attrs" where
  "build_attrs_extra attrs = attrs"

text \<open>Lines 38 to 41: \<^verbatim>\<open>build_attrs(self, base_attrs, extra_attrs=None)\<close>.\<close>

definition build_attrs_new ::
  "host \<Rightarrow> (attrs \<Rightarrow> attrs) \<Rightarrow> attrs \<Rightarrow> attrs \<Rightarrow> attrs option \<Rightarrow> attrs" where
  "build_attrs_new h hook self_attrs base_attrs extra_attrs =
     (let attrs = Widget_build_attrs_new h self_attrs base_attrs extra_attrs
      in hook attrs)"

text \<open>Lines 43 to 46: \<^verbatim>\<open>build_attrs(self, extra_attrs=None, **kwargs)\<close>.\<close>

definition build_attrs_old ::
  "host \<Rightarrow> (attrs \<Rightarrow> attrs) \<Rightarrow> attrs \<Rightarrow> attrs option \<Rightarrow> attrs \<Rightarrow> attrs" where
  "build_attrs_old h hook self_attrs extra_attrs kwargs =
     (let attrs = Widget_build_attrs_old h self_attrs extra_attrs kwargs
      in hook attrs)"

text \<open>
  Lines 57 and 58 (new signature) and 61 to 67 (old signature). \<^verbatim>\<open>base_attrs.copy()\<close>
  leaves the caller's dictionary alone, which a pure function does anyway;
  \<^verbatim>\<open>attrs.update(extra_attrs)\<close> is \<open>++\<close>.
\<close>

definition build_attrs_compat_new ::
  "host \<Rightarrow> (attrs \<Rightarrow> attrs) \<Rightarrow> attrs \<Rightarrow> attrs \<Rightarrow> attrs option \<Rightarrow> attrs" where
  "build_attrs_compat_new h hook self_attrs base_attrs extra_attrs =
     build_attrs_new h hook self_attrs base_attrs extra_attrs"

definition build_attrs_compat_old ::
  "(attrs \<Rightarrow> attrs) \<Rightarrow> attrs \<Rightarrow> attrs option \<Rightarrow> attrs" where
  "build_attrs_compat_old hook base_attrs extra_attrs =
     (let attrs = base_attrs;
          attrs = (case extra_attrs of None \<Rightarrow> attrs | Some e \<Rightarrow> attrs ++ e)
      in hook attrs)"

text \<open>The class body binds one of the two, by the flag (lines 56 and 60).\<close>

definition build_attrs_compat ::
  "host \<Rightarrow> (attrs \<Rightarrow> attrs) \<Rightarrow> attrs \<Rightarrow> attrs \<Rightarrow> attrs option \<Rightarrow> attrs" where
  "build_attrs_compat h hook self_attrs base_attrs extra_attrs =
     (if new_style_build_attrs h
      then build_attrs_compat_new h hook self_attrs base_attrs extra_attrs
      else build_attrs_compat_old hook base_attrs extra_attrs)"

text \<open>
  Line 133 calls \<^verbatim>\<open>self.build_attrs(attrs, name=name)\<close>: one positional argument and
  the keyword \<^verbatim>\<open>name\<close>. The old definition takes the positional argument as
  \<^verbatim>\<open>extra_attrs\<close> and the keyword into \<^verbatim>\<open>**kwargs\<close>. The new definition has the
  parameters \<^verbatim>\<open>base_attrs\<close> and \<^verbatim>\<open>extra_attrs\<close> and no \<^verbatim>\<open>**kwargs\<close>: Python refuses
  the keyword \<^verbatim>\<open>name\<close> with a \<^verbatim>\<open>TypeError\<close> before the body runs.
\<close>

definition build_attrs_name_call ::
  "host \<Rightarrow> (attrs \<Rightarrow> attrs) \<Rightarrow> attrs \<Rightarrow> attrs option \<Rightarrow> string \<Rightarrow> error + attrs" where
  "build_attrs_name_call h hook self_attrs attrs name =
     (if new_style_build_attrs h
      then Inl TypeError
      else Inr (build_attrs_old h hook self_attrs attrs [''name'' \<mapsto> PyStr name]))"

section \<open>MarkupInput\<close>

text \<open>
  Lines 73 to 82. \<open>super_render\<close> is the \<^verbatim>\<open>render\<close> of the next class in the method
  resolution order. The result is the list of attribute reads and what the call returns
  or raises.
\<close>

definition MarkupInput_render ::
  "(string \<Rightarrow> pyval \<Rightarrow> attrs option \<Rightarrow> error + rendered) \<Rightarrow>
     string \<Rightarrow> pyval \<Rightarrow> attrs option \<Rightarrow> event list \<times> (error + rendered)" where
  "MarkupInput_render super_render name value attrs =
     (if value \<noteq> PyNone then
        (case get_raw value of
           Inr raw \<Rightarrow> ([GetAttr value ''raw''], super_render name raw attrs)
         | Inl AttributeError \<Rightarrow> ([GetAttr value ''raw''], super_render name value attrs)
         | Inl e \<Rightarrow> ([GetAttr value ''raw''], Inl e))
      else ([], super_render name value attrs))"

text \<open>Lines 85 and 86: \<^verbatim>\<open>MarkupTextarea(MarkupInput, forms.Textarea)\<close> has an empty body.\<close>

definition MarkupTextarea_render ::
  "host \<Rightarrow> attrs \<Rightarrow> string \<Rightarrow> pyval \<Rightarrow> attrs option \<Rightarrow> event list \<times> (error + rendered)" where
  "MarkupTextarea_render h self_attrs name value attrs =
     MarkupInput_render (Textarea_render h self_attrs) name value attrs"

section \<open>MarkItUpWidget\<close>

record widget =
  self_attrs :: attrs
  miu_set :: string
  miu_skin :: string
  auto_preview :: bool

text \<open>\<^verbatim>\<open>x or y\<close> on an optional string: \<^verbatim>\<open>None\<close> and the empty string are false.\<close>

definition py_or :: "string option \<Rightarrow> string \<Rightarrow> string" where
  "py_or x y = (case x of None \<Rightarrow> y | Some s \<Rightarrow> if s = [] then y else s)"

text \<open>
  Lines 108 to 117. \<open>super_init\<close> is the constructor of the next class in the method
  resolution order, which sets \<^verbatim>\<open>self.attrs\<close>. The signature has no parameter for the
  script-library URL.
\<close>

definition MarkItUpWidget_init ::
  "settings \<Rightarrow> (string \<Rightarrow> string) \<Rightarrow> (attrs option \<Rightarrow> attrs) \<Rightarrow>
     attrs option \<Rightarrow> string option \<Rightarrow> string option \<Rightarrow> bool option \<Rightarrow> widget" where
  "MarkItUpWidget_init st absolute_url super_init attrs markitup_set markitup_skin ap =
     \<lparr> self_attrs = super_init attrs,
       miu_set = absolute_url (py_or markitup_set (MARKITUP_SET st)),
       miu_skin = absolute_url (py_or markitup_skin (MARKITUP_SKIN st)),
       auto_preview = (case ap of None \<Rightarrow> MARKITUP_AUTO_PREVIEW st | Some b \<Rightarrow> b) \<rparr>"

text \<open>\<^verbatim>\<open>posixpath.join(a, b)\<close> of the standard library, for two components.\<close>

definition posixpath_join :: "string \<Rightarrow> string \<Rightarrow> string" where
  "posixpath_join a b =
     (if take 1 b = ''/'' then b
      else if a = [] \<or> last a = CHR ''/'' then a @ b
      else a @ ''/'' @ b)"

text \<open>
  \<^verbatim>\<open>forms.Media(css=..., js=...)\<close> of the framework, in the versions the module names (up
  to 1.11): a dictionary from a medium to its stylesheets, and a list of scripts. The
  constructor adds the paths it is given one by one (\<^verbatim>\<open>add_css\<close>, \<^verbatim>\<open>add_js\<close>) and
  skips a path that is already there, so a repeated path is kept once, at its first
  place.
\<close>

record media =
  css :: "string \<rightharpoonup> string list"
  js :: "string list"

fun add_paths :: "string list \<Rightarrow> string list \<Rightarrow> string list" where
  "add_paths present [] = present"
| "add_paths present (path # paths) =
     add_paths (if path \<in> set present then present else present @ [path]) paths"

definition add_js :: "string list \<Rightarrow> string list \<Rightarrow> string list" where
  "add_js scripts data = add_paths scripts data"

fun add_css ::
  "(string \<rightharpoonup> string list) \<Rightarrow> (string \<times> string list) list \<Rightarrow> (string \<rightharpoonup> string list)" where
  "add_css sheets [] = sheets"
| "add_css sheets ((medium, paths) # data) =
     add_css
       (if paths = [] then sheets
        else sheets(medium \<mapsto> add_paths (case sheets medium of None \<Rightarrow> [] | Some ps \<Rightarrow> ps) paths))
       data"

definition Media :: "(string \<times> string list) list \<Rightarrow> string list \<Rightarrow> media" where
  "Media css_data js_data = \<lparr> css = add_css Map.empty css_data, js = add_js [] js_data \<rparr>"

text \<open>Lines 119 to 128.\<close>

definition MarkItUpWidget_media :: "settings \<Rightarrow> (string \<Rightarrow> string) \<Rightarrow> widget \<Rightarrow> media" where
  "MarkItUpWidget_media st absolute_url w =
     (let js_media = (case JQUERY_URL st of Some u \<Rightarrow> [absolute_url u] | None \<Rightarrow> []);
          js_media = js_media @ [absolute_url ''markitup/ajax_csrf.js'',
                                 absolute_url ''markitup/jquery.markitup.js'',
                                 posixpath_join (miu_set w) ''set.js'']
      in Media [(''screen'', [posixpath_join (miu_skin w) ''style.css'',
                           posixpath_join (miu_set w) ''style.css''])]
               js_media)"

text \<open>Lines 136 to 139: only \<^verbatim>\<open>NoReverseMatch\<close> is caught.\<close>

definition preview_url :: "host \<Rightarrow> error + string" where
  "preview_url h =
     (case reverse h ''markitup_preview'' of
        Inr u \<Rightarrow> Inr u
      | Inl NoReverseMatch \<Rightarrow> Inr []
      | Inl e \<Rightarrow> Inl e)"

text \<open>
  Lines 133 to 144: the editor-initialization markup. The route is resolved before the
  context dictionary is built, so a missing \<^verbatim>\<open>id\<close> is found after it.
\<close>

definition editor_markup ::
  "host \<Rightarrow> (attrs \<Rightarrow> attrs) \<Rightarrow> widget \<Rightarrow> string \<Rightarrow> attrs option \<Rightarrow> error + rendered" where
  "editor_markup h hook w name attrs =
     (case build_attrs_name_call h hook (self_attrs w) attrs name of
        Inl e \<Rightarrow> Inl e
      | Inr base_attrs \<Rightarrow>
          (let final_attrs = build_attrs_compat h hook (self_attrs w) base_attrs attrs in
           (case preview_url h of
              Inl e \<Rightarrow> Inl e
            | Inr url \<Rightarrow>
                (case final_attrs ''id'' of
                   None \<Rightarrow> Inl KeyError
                 | Some textarea_id \<Rightarrow>
                     render_to_string h ''markitup/editor.html''
                       [''textarea_id'' \<mapsto> textarea_id,
                        ''AUTO_PREVIEW'' \<mapsto> PyBool (auto_preview w),
                        ''preview_url'' \<mapsto> PyStr url]))))"

text \<open>Lines 130 to 146.\<close>

definition MarkItUpWidget_render ::
  "host \<Rightarrow> (attrs \<Rightarrow> attrs) \<Rightarrow> widget \<Rightarrow> string \<Rightarrow> pyval \<Rightarrow> attrs option \<Rightarrow>
     event list \<times> (error + rendered)" where
  "MarkItUpWidget_render h hook w name value attrs =
     (case MarkupTextarea_render h (self_attrs w) name value attrs of
        (reads, Inl e) \<Rightarrow> (reads, Inl e)
      | (reads, Inr html) \<Rightarrow>
          (reads,
           (case editor_markup h hook w name attrs of
              Inl e \<Rightarrow> Inl e
            | Inr editor \<Rightarrow> Inr (mark_safe (add_rendered html editor)))))"

section \<open>AdminMarkItUpWidget\<close>

text \<open>
  Lines 149 to 155: \<^verbatim>\<open>AdminMarkItUpWidget(MarkItUpWidget, AdminTextareaWidget)\<close> has an
  empty body. Its constructor is the one of \<^verbatim>\<open>MarkItUpWidget\<close>, whose
  \<^verbatim>\<open>super().__init__\<close> now reaches the admin text-area; its \<^verbatim>\<open>render\<close> is inherited.
\<close>

definition AdminMarkItUpWidget_init ::
  "host \<Rightarrow> settings \<Rightarrow> (string \<Rightarrow> string) \<Rightarrow>
     attrs option \<Rightarrow> string option \<Rightarrow> string option \<Rightarrow> bool option \<Rightarrow> widget" where
  "AdminMarkItUpWidget_init h st absolute_url attrs markitup_set markitup_skin ap =
     MarkItUpWidget_init st absolute_url (AdminTextareaWidget_init h)
       attrs markitup_set markitup_skin ap"

definition AdminMarkItUpWidget_render ::
  "host \<Rightarrow> (attrs \<Rightarrow> attrs) \<Rightarrow> widget \<Rightarrow> string \<Rightarrow> pyval \<Rightarrow> attrs option \<Rightarrow>
     event list \<times> (error + rendered)" where
  "AdminMarkItUpWidget_render = MarkItUpWidget_render"

section \<open>The framework's own methods, and a sample installation\<close>

text \<open>
  What the framework's \<^verbatim>\<open>Widget.build_attrs\<close> computes, in its two versions: with the
  new signature a copy of \<^verbatim>\<open>base_attrs\<close> updated by \<^verbatim>\<open>extra_attrs\<close> (the implementation
  that lines 62 to 66 copy), with the old one \<^verbatim>\<open>dict(self.attrs, **kwargs)\<close> updated by
  \<^verbatim>\<open>extra_attrs\<close>. They are the instances of the two parameters in the sample host,
  and the hypotheses on the host where a statement needs them.

  The sample host, settings and widget are for evaluating the model on concrete
  inputs: the text-area constructors set the framework's default attributes (the admin
  one adds the styling class), and a small text-area renderer and editor template
  stand for the framework's.
\<close>

definition dict_or_empty :: "attrs option \<Rightarrow> attrs" where
  "dict_or_empty a = (case a of None \<Rightarrow> Map.empty | Some d \<Rightarrow> d)"

definition framework_build_attrs_new :: "attrs \<Rightarrow> attrs \<Rightarrow> attrs option \<Rightarrow> attrs" where
  "framework_build_attrs_new sa base_attrs extra_attrs =
     (case extra_attrs of None \<Rightarrow> base_attrs | Some e \<Rightarrow> base_attrs ++ e)"

definition framework_build_attrs_old :: "attrs \<Rightarrow> attrs option \<Rightarrow> attrs \<Rightarrow> attrs" where
  "framework_build_attrs_old sa extra_attrs kwargs =
     (sa ++ kwargs) ++ dict_or_empty extra_attrs"

definition show_pyval :: "pyval \<Rightarrow> string" where
  "show_pyval v =
     (case v of PyStr s \<Rightarrow> s | PyBool b \<Rightarrow> (if b then ''true'' else ''false'') | _ \<Rightarrow> [])"

definition sample_textarea ::
  "attrs \<Rightarrow> string \<Rightarrow> pyval \<Rightarrow> attrs option \<Rightarrow> error + rendered" where
  "sample_textarea sa name value attrs =
     (let final = (sa ++ [''name'' \<mapsto> PyStr name]) ++ dict_or_empty attrs
      in Inr (SafeText (''<textarea class='' @ show_pyval (case final ''class'' of None \<Rightarrow> PyNone | Some c \<Rightarrow> c)
                        @ '' name='' @ name @ ''>'' @ show_pyval value @ ''</textarea>'')))"

definition sample_template :: "string \<Rightarrow> attrs \<Rightarrow> error + rendered" where
  "sample_template template ctx =
     (case (ctx ''textarea_id'', ctx ''AUTO_PREVIEW'', ctx ''preview_url'') of
        (Some i, Some b, Some u) \<Rightarrow>
          Inr (SafeText (''<script>'' @ show_pyval i @ '','' @ show_pyval b @ '','' @ show_pyval u @ ''</script>''))
      | _ \<Rightarrow> Inl (HostError template))"

definition sample_host :: "bool \<Rightarrow> (string \<Rightarrow> error + string) \<Rightarrow> host" where
  "sample_host new_style routes =
     \<lparr> new_style_build_attrs = new_style,
       Widget_build_attrs_new = framework_build_attrs_new,
       Widget_build_attrs_old = framework_build_attrs_old,
       Textarea_init = (\<lambda>a. [''cols'' \<mapsto> PyStr ''40'', ''rows'' \<mapsto> PyStr ''10''] ++ dict_or_empty a),
       AdminTextareaWidget_init =
         (\<lambda>a. [''cols'' \<mapsto> PyStr ''40'', ''rows'' \<mapsto> PyStr ''10'']
                ++ ([''class'' \<mapsto> PyStr ''vLargeTextField''] ++ dict_or_empty a)),
       Textarea_render = sample_textarea,
       reverse = routes,
       render_to_string = sample_template \<rparr>"

definition with_preview_route :: "string \<Rightarrow> error + string" where
  "with_preview_route route =
     (if route = ''markitup_preview'' then Inr ''/markitup/preview/'' else Inl NoReverseMatch)"

definition no_routes :: "string \<Rightarrow> error + string" where
  "no_routes route = Inl NoReverseMatch"

definition sample_settings :: settings where
  "sample_settings =
     \<lparr> MARKITUP_SET = ''markitup/sets/default'',
       MARKITUP_SKIN = ''markitup/skins/simple'',
       MARKITUP_AUTO_PREVIEW = False,
       JQUERY_URL = Some ''/js/jquery.min.js'' \<rparr>"

definition sample_absolute_url :: "string \<Rightarrow> string" where
  "sample_absolute_url path = (if take 1 path = ''/'' then path else ''/static/'' @ path)"

definition sample_widget :: "attrs option \<Rightarrow> widget" where
  "sample_widget attrs =
     MarkItUpWidget_init sample_settings sample_absolute_url
       (Textarea_init (sample_host False with_preview_route)) attrs None None None"

section \<open>Evaluation rules and auxiliary facts\<close>

lemmas sample_defs =
  sample_host_def sample_widget_def sample_textarea_def sample_template_def
  sample_settings_def sample_absolute_url_def with_preview_route_def no_routes_def
  framework_build_attrs_old_def framework_build_attrs_new_def dict_or_empty_def show_pyval_def

lemmas widget_defs =
  MarkItUpWidget_render_def MarkupTextarea_render_def MarkupInput_render_def
  MarkItUpWidget_init_def editor_markup_def build_attrs_name_call_def build_attrs_old_def
  build_attrs_new_def build_attrs_compat_def build_attrs_compat_old_def build_attrs_compat_new_def
  build_attrs_extra_def preview_url_def mark_safe_def py_or_def

lemma mark_safe_add_rendered:
  "mark_safe (add_rendered a b) = SafeText (text_of a @ text_of b)"
  by (cases a) (cases b, simp_all add: mark_safe_def)+

text \<open>Adding paths keeps what is there, in place, and adds each new path once.\<close>

lemma set_add_paths: "set (add_paths present paths) = set present \<union> set paths"
  by (induction paths arbitrary: present) auto

lemma distinct_add_paths: "distinct present \<Longrightarrow> distinct (add_paths present paths)"
  by (induction paths arbitrary: present) auto

lemma add_paths_prefix: "\<exists>more. add_paths present paths = present @ more"
proof (induction paths arbitrary: present)
  case Nil
  then show ?case by simp
next
  case (Cons path paths)
  show ?case
  proof (cases "path \<in> set present")
    case True
    with Cons [of present] show ?thesis by simp
  next
    case False
    from Cons [of "present @ [path]"] obtain more
      where "add_paths (present @ [path]) paths = (present @ [path]) @ more" by blast
    with False show ?thesis by simp
  qed
qed

lemma hd_add_paths: "hd (add_paths [] (path # paths)) = path"
  using add_paths_prefix [of "[path]" paths] by auto

text \<open>
  With the new signature the call of line 133 passes a keyword that the method of
  lines 38 to 41 does not take: the editor markup is never built, and \<^verbatim>\<open>render\<close>
  returns no markup, whatever its arguments. (Lines 52 to 55 announce
  \<^verbatim>\<open>build_attrs_compat\<close> as the interface for \<^verbatim>\<open>render\<close> under both signatures.)
\<close>

lemma editor_markup_new_style:
  "new_style_build_attrs h \<Longrightarrow> editor_markup h hook w name attrs = Inl TypeError"
  by (simp add: editor_markup_def build_attrs_name_call_def)

lemma render_new_style_never_returns:
  "new_style_build_attrs h \<Longrightarrow>
   snd (MarkItUpWidget_render h hook w name v attrs) \<noteq> Inr out"
  by (auto simp: MarkItUpWidget_render_def editor_markup_new_style split: prod.splits sum.splits)

lemma render_new_style_sample:
  "MarkItUpWidget_render (sample_host True with_preview_route) build_attrs_extra
     (sample_widget None) ''body'' (PyStr ''hello'') (Some [''id'' \<mapsto> PyStr ''id_body''])
   = ([GetAttr (PyStr ''hello'') ''raw''], Inl TypeError)"
  by (simp add: widget_defs sample_defs)

text \<open>Replacing a route that does not resolve by the empty URL changes nothing.\<close>

lemma editor_markup_unresolved:
  "reverse h ''markitup_preview'' = Inl NoReverseMatch \<Longrightarrow>
   editor_markup (h\<lparr>reverse := \<lambda>route. Inr []\<rparr>) hook w name attrs
   = editor_markup h hook w name attrs"
  by (simp add: editor_markup_def build_attrs_name_call_def build_attrs_compat_def
      build_attrs_compat_new_def build_attrs_new_def build_attrs_old_def preview_url_def
      split: option.splits)

text \<open>
  The editor markup reads the widget through its \<^verbatim>\<open>id\<close> attribute and its auto-preview
  flag only: two widgets that differ in their \<^verbatim>\<open>class\<close> attribute get the same.
\<close>

lemma editor_markup_class_independent:
  assumes "Widget_build_attrs_old h = framework_build_attrs_old"
    and "\<forall>k. k \<noteq> ''class'' \<longrightarrow> self_attrs wa k = self_attrs wb k"
    and "auto_preview wa = auto_preview wb"
  shows "editor_markup h build_attrs_extra wa name attrs
       = editor_markup h build_attrs_extra wb name attrs"
proof (cases "new_style_build_attrs h")
  case True
  then show ?thesis by (simp add: editor_markup_new_style)
next
  case False
  have "self_attrs wa ''id'' = self_attrs wb ''id''"
    using assms(2) by simp
  then have "build_attrs_compat h build_attrs_extra (self_attrs wa)
           (build_attrs_old h build_attrs_extra (self_attrs wa) attrs [''name'' \<mapsto> PyStr name]) attrs ''id''
      = build_attrs_compat h build_attrs_extra (self_attrs wb)
           (build_attrs_old h build_attrs_extra (self_attrs wb) attrs [''name'' \<mapsto> PyStr name]) attrs ''id''"
    using False assms(1)
    by (simp add: build_attrs_compat_def build_attrs_compat_old_def build_attrs_old_def
        build_attrs_extra_def framework_build_attrs_old_def dict_or_empty_def map_add_def
        split: option.splits)
  with False assms(3) show ?thesis
    by (simp add: editor_markup_def build_attrs_name_call_def split: sum.splits option.splits)
qed

section \<open>MarkItUpWidget.render\<close>

text \<open>
  Claim C1, as the code has it. Under the old signature, for every field name, value
  and attribute mapping: when the base text-area rendering of (name, value, attrs)
  succeeds, the merged attributes hold an \<^verbatim>\<open>id\<close>, the preview URL is resolved (or
  replaced by the empty string) and the editor template renders, \<^verbatim>\<open>render\<close> returns the
  base rendering followed by the editor markup, which is the template rendered on
  exactly the element's id, the widget's auto-preview flag and the preview URL; the
  result is marked safe.
\<close>

theorem MarkItUpWidget_render_returns_markup:
  assumes "\<not> new_style_build_attrs h"
    and "MarkupTextarea_render h (self_attrs w) name v attrs = (reads, Inr html)"
    and "build_attrs_compat h hook (self_attrs w)
           (build_attrs_old h hook (self_attrs w) attrs [''name'' \<mapsto> PyStr name]) attrs ''id''
         = Some textarea_id"
    and "preview_url h = Inr url"
    and "render_to_string h ''markitup/editor.html''
           [''textarea_id'' \<mapsto> textarea_id,
            ''AUTO_PREVIEW'' \<mapsto> PyBool (auto_preview w),
            ''preview_url'' \<mapsto> PyStr url] = Inr editor"
  shows "MarkItUpWidget_render h hook w name v attrs
         = (reads, Inr (SafeText (text_of html @ text_of editor)))"
proof -
  have "editor_markup h hook w name attrs = Inr editor"
    using assms(1,3,4,5) by (simp add: editor_markup_def build_attrs_name_call_def)
  with assms(2) show ?thesis
    by (simp add: MarkItUpWidget_render_def mark_safe_add_rendered)
qed

theorem MarkItUpWidget_render_returns_markup_witness:
  "\<not> new_style_build_attrs (sample_host False with_preview_route)
   \<and> MarkupTextarea_render (sample_host False with_preview_route) (self_attrs (sample_widget None))
        ''body'' (PyStr ''hello'') (Some [''id'' \<mapsto> PyStr ''id_body''])
      = ([GetAttr (PyStr ''hello'') ''raw''], Inr (SafeText ''<textarea class= name=body>hello</textarea>''))
   \<and> preview_url (sample_host False with_preview_route) = Inr ''/markitup/preview/''
   \<and> MarkItUpWidget_render (sample_host False with_preview_route) build_attrs_extra (sample_widget None)
        ''body'' (PyStr ''hello'') (Some [''id'' \<mapsto> PyStr ''id_body''])
      = ([GetAttr (PyStr ''hello'') ''raw''],
         Inr (SafeText ''<textarea class= name=body>hello</textarea><script>id_body,false,/markitup/preview/</script>''))"
  using MarkItUpWidget_render_returns_markup
    [where h = "sample_host False with_preview_route" and w = "sample_widget None"
      and name = "''body''" and v = "PyStr ''hello''"
      and attrs = "Some [''id'' \<mapsto> PyStr ''id_body'']"
      and reads = "[GetAttr (PyStr ''hello'') ''raw'']"
      and html = "SafeText ''<textarea class= name=body>hello</textarea>''"
      and hook = build_attrs_extra and textarea_id = "PyStr ''id_body''"
      and url = "''/markitup/preview/''"
      and editor = "SafeText ''<script>id_body,false,/markitup/preview/</script>''"]
  by (simp add: widget_defs sample_defs)

text \<open>
  The claim as stated, for every attribute mapping, fails: with the default
  \<^verbatim>\<open>attrs=None\<close> and a widget without an \<^verbatim>\<open>id\<close> of its own, line 142 raises
  \<^verbatim>\<open>KeyError\<close>.
\<close>

theorem MarkItUpWidget_render_without_id_raises:
  "MarkItUpWidget_render (sample_host False with_preview_route) build_attrs_extra
     (sample_widget None) ''body'' (PyStr ''hello'') None
   = ([GetAttr (PyStr ''hello'') ''raw''], Inl KeyError)"
  by (simp add: widget_defs sample_defs)

section \<open>MarkupInput.render\<close>

text \<open>
  Claim C2, as the code has it. For every value: if reading \<^verbatim>\<open>raw\<close> yields a value,
  that value is what the base \<^verbatim>\<open>render\<close> gets; if it raises \<^verbatim>\<open>AttributeError\<close>, which
  covers \<^verbatim>\<open>None\<close> and every value without such an accessor, the base \<^verbatim>\<open>render\<close> gets
  the value itself and the call returns what the base \<^verbatim>\<open>render\<close> returns, so nothing
  is raised by the probe; if it raises any other exception, \<^verbatim>\<open>render\<close> raises that
  exception after the read, and the base \<^verbatim>\<open>render\<close> is not reached.
\<close>

theorem MarkupInput_render_unwraps_raw:
  "(get_raw v = Inr raw \<longrightarrow>
      MarkupInput_render super_render name v attrs
      = ([GetAttr v ''raw''], super_render name raw attrs))
   \<and> (get_raw v = Inl AttributeError \<longrightarrow>
      snd (MarkupInput_render super_render name v attrs) = super_render name v attrs)
   \<and> (get_raw v = Inl e \<and> e \<noteq> AttributeError \<longrightarrow>
      MarkupInput_render super_render name v attrs = ([GetAttr v ''raw''], Inl e))"
proof (intro conjI impI)
  assume "get_raw v = Inr raw"
  moreover from this have "v \<noteq> PyNone" by auto
  ultimately show "MarkupInput_render super_render name v attrs
      = ([GetAttr v ''raw''], super_render name raw attrs)"
    by (simp add: MarkupInput_render_def)
next
  assume "get_raw v = Inl AttributeError"
  then show "snd (MarkupInput_render super_render name v attrs) = super_render name v attrs"
    by (simp add: MarkupInput_render_def)
next
  assume a: "get_raw v = Inl e \<and> e \<noteq> AttributeError"
  then have "v \<noteq> PyNone" by auto
  with a show "MarkupInput_render super_render name v attrs = ([GetAttr v ''raw''], Inl e)"
    by (cases e) (simp_all add: MarkupInput_render_def)
qed

theorem MarkupInput_render_unwraps_raw_witness:
  "get_raw (PyObj [(''raw'', Inr (PyStr ''*hi*''))]) = Inr (PyStr ''*hi*'')
   \<and> MarkupInput_render (sample_textarea Map.empty) ''body'' (PyObj [(''raw'', Inr (PyStr ''*hi*''))]) None
      = ([GetAttr (PyObj [(''raw'', Inr (PyStr ''*hi*''))]) ''raw''],
         Inr (SafeText ''<textarea class= name=body>*hi*</textarea>''))
   \<and> get_raw (PyStr ''plain'') = Inl AttributeError
   \<and> snd (MarkupInput_render (sample_textarea Map.empty) ''body'' (PyStr ''plain'') None)
      = Inr (SafeText ''<textarea class= name=body>plain</textarea>'')
   \<and> get_raw (PyObj [(''raw'', Inl AttributeError)]) = Inl AttributeError
   \<and> snd (MarkupInput_render (sample_textarea Map.empty) ''body'' (PyObj [(''raw'', Inl AttributeError)]) None)
      = Inr (SafeText ''<textarea class= name=body></textarea>'')
   \<and> get_raw (PyObj [(''raw'', Inl KeyError)]) = Inl KeyError
   \<and> MarkupInput_render (sample_textarea Map.empty) ''body'' (PyObj [(''raw'', Inl KeyError)]) None
      = ([GetAttr (PyObj [(''raw'', Inl KeyError)]) ''raw''], Inl KeyError)"
  using MarkupInput_render_unwraps_raw
      [where v = "PyObj [(''raw'', Inr (PyStr ''*hi*''))]" and raw = "PyStr ''*hi*''"
        and super_render = "sample_textarea Map.empty" and name = "''body''" and attrs = None
        and e = KeyError]
    MarkupInput_render_unwraps_raw
      [where v = "PyStr ''plain''" and raw = "PyStr ''plain''"
        and super_render = "sample_textarea Map.empty" and name = "''body''" and attrs = None
        and e = KeyError]
    MarkupInput_render_unwraps_raw
      [where v = "PyObj [(''raw'', Inl AttributeError)]" and raw = "PyNone"
        and super_render = "sample_textarea Map.empty" and name = "''body''" and attrs = None
        and e = KeyError]
    MarkupInput_render_unwraps_raw
      [where v = "PyObj [(''raw'', Inl KeyError)]" and raw = "PyNone"
        and super_render = "sample_textarea Map.empty" and name = "''body''" and attrs = None
        and e = KeyError]
  by (simp add: sample_defs)

text \<open>
  The claim as stated, that a value either has its \<^verbatim>\<open>raw\<close> substituted or goes through
  unchanged with no error raised, fails for a value whose \<^verbatim>\<open>raw\<close> accessor raises an
  exception other than \<^verbatim>\<open>AttributeError\<close>: line 80 catches that one only.
\<close>

theorem MarkupInput_render_accessor_error_propagates:
  "get_raw (PyObj [(''raw'', Inl ValueError)]) = Inl ValueError
   \<and> MarkupInput_render (sample_textarea Map.empty) ''body'' (PyObj [(''raw'', Inl ValueError)]) None
      = ([GetAttr (PyObj [(''raw'', Inl ValueError)]) ''raw''], Inl ValueError)"
  by (simp add: MarkupInput_render_def)

text \<open>
  Claim C9. For the value \<^verbatim>\<open>None\<close> no attribute is read, so no accessor runs, and
  \<^verbatim>\<open>None\<close> itself goes to the base \<^verbatim>\<open>render\<close>.
\<close>

theorem MarkupInput_render_None_no_probe:
  "MarkupInput_render super_render name PyNone attrs = ([], super_render name PyNone attrs)"
  by (simp add: MarkupInput_render_def)

theorem MarkupInput_render_None_no_probe_witness:
  "MarkupInput_render (sample_textarea Map.empty) ''body'' PyNone None
   = ([], Inr (SafeText ''<textarea class= name=body></textarea>''))"
  using MarkupInput_render_None_no_probe [of "sample_textarea Map.empty" "''body''" None]
  by (simp add: sample_defs)

section \<open>The preview route\<close>

text \<open>
  Claim C3. For every call of \<^verbatim>\<open>render\<close>, on every host: if the preview route does not
  resolve, the preview URL is exactly the empty string, and \<^verbatim>\<open>render\<close> does what it
  does for a route that resolves to the empty string, so the failure of the resolution
  is never what makes a call fail. Where the other steps of the call succeed,
  \<^verbatim>\<open>render\<close> returns the markup, with the empty URL in the editor template's context.
\<close>

theorem preview_route_failure_is_not_fatal:
  assumes "reverse h ''markitup_preview'' = Inl NoReverseMatch"
  shows "preview_url h = Inr []
    \<and> MarkItUpWidget_render h hook w name v attrs
      = MarkItUpWidget_render (h\<lparr>reverse := \<lambda>route. Inr []\<rparr>) hook w name v attrs
    \<and> (MarkupTextarea_render h (self_attrs w) name v attrs = (reads, Inr html)
       \<and> build_attrs_name_call h hook (self_attrs w) attrs name = Inr base_attrs
       \<and> build_attrs_compat h hook (self_attrs w) base_attrs attrs ''id'' = Some textarea_id
       \<and> render_to_string h ''markitup/editor.html''
           [''textarea_id'' \<mapsto> textarea_id,
            ''AUTO_PREVIEW'' \<mapsto> PyBool (auto_preview w),
            ''preview_url'' \<mapsto> PyStr []] = Inr editor
       \<longrightarrow> MarkItUpWidget_render h hook w name v attrs
           = (reads, Inr (SafeText (text_of html @ text_of editor))))"
proof (intro conjI impI)
  show url: "preview_url h = Inr []"
    using assms by (simp add: preview_url_def)
  show "MarkItUpWidget_render h hook w name v attrs
      = MarkItUpWidget_render (h\<lparr>reverse := \<lambda>route. Inr []\<rparr>) hook w name v attrs"
    by (simp add: MarkItUpWidget_render_def MarkupTextarea_render_def
        editor_markup_unresolved [OF assms] split: prod.splits sum.splits)
  assume a: "MarkupTextarea_render h (self_attrs w) name v attrs = (reads, Inr html)
       \<and> build_attrs_name_call h hook (self_attrs w) attrs name = Inr base_attrs
       \<and> build_attrs_compat h hook (self_attrs w) base_attrs attrs ''id'' = Some textarea_id
       \<and> render_to_string h ''markitup/editor.html''
           [''textarea_id'' \<mapsto> textarea_id,
            ''AUTO_PREVIEW'' \<mapsto> PyBool (auto_preview w),
            ''preview_url'' \<mapsto> PyStr []] = Inr editor"
  then have "editor_markup h hook w name attrs = Inr editor"
    using url by (simp add: editor_markup_def)
  with a show "MarkItUpWidget_render h hook w name v attrs
           = (reads, Inr (SafeText (text_of html @ text_of editor)))"
    by (simp add: MarkItUpWidget_render_def mark_safe_add_rendered)
qed

theorem preview_route_failure_is_not_fatal_witness:
  "reverse (sample_host False no_routes) ''markitup_preview'' = Inl NoReverseMatch
   \<and> preview_url (sample_host False no_routes) = Inr []
   \<and> MarkItUpWidget_render (sample_host False no_routes) build_attrs_extra (sample_widget None)
        ''body'' (PyStr ''hello'') (Some [''id'' \<mapsto> PyStr ''id_body''])
      = ([GetAttr (PyStr ''hello'') ''raw''],
         Inr (SafeText ''<textarea class= name=body>hello</textarea><script>id_body,false,</script>''))"
  using preview_route_failure_is_not_fatal
    [where h = "sample_host False no_routes" and hook = build_attrs_extra
      and w = "sample_widget None" and name = "''body''" and v = "PyStr ''hello''"
      and attrs = "Some [''id'' \<mapsto> PyStr ''id_body'']"
      and reads = "[GetAttr (PyStr ''hello'') ''raw'']"
      and html = "SafeText ''<textarea class= name=body>hello</textarea>''"
      and base_attrs = "[''cols'' \<mapsto> PyStr ''40'', ''rows'' \<mapsto> PyStr ''10'',
                        ''name'' \<mapsto> PyStr ''body'', ''id'' \<mapsto> PyStr ''id_body'']"
      and textarea_id = "PyStr ''id_body''"
      and editor = "SafeText ''<script>id_body,false,</script>''"]
  by (simp add: widget_defs sample_defs)

section \<open>The constructor and the media\<close>

text \<open>
  Claim C4, as the code has it. The button-set path, the skin path and the auto-preview
  flag come from the settings unless the constructor is given \<^verbatim>\<open>markitup_set\<close>,
  \<^verbatim>\<open>markitup_skin\<close> or \<^verbatim>\<open>auto_preview\<close>: a path that is given and not empty, and a flag
  that is given, take precedence; a path that is left out or empty, and a flag that is
  left out, fall back to the setting. The script-library URL has no constructor
  argument: whatever the constructor is given, the scripts are the setting's URL, when
  there is one, and the three scripts of the widget, a repeated path kept once, and
  they start with the setting's URL when there is one.
\<close>

theorem MarkItUpWidget_init_overrides:
  "(markitup_set = Some s \<and> s \<noteq> [] \<longrightarrow>
      miu_set (MarkItUpWidget_init st absolute_url super_init attrs markitup_set markitup_skin ap)
      = absolute_url s)
   \<and> (markitup_set = None \<or> markitup_set = Some [] \<longrightarrow>
      miu_set (MarkItUpWidget_init st absolute_url super_init attrs markitup_set markitup_skin ap)
      = absolute_url (MARKITUP_SET st))
   \<and> (markitup_skin = Some k \<and> k \<noteq> [] \<longrightarrow>
      miu_skin (MarkItUpWidget_init st absolute_url super_init attrs markitup_set markitup_skin ap)
      = absolute_url k)
   \<and> (markitup_skin = None \<or> markitup_skin = Some [] \<longrightarrow>
      miu_skin (MarkItUpWidget_init st absolute_url super_init attrs markitup_set markitup_skin ap)
      = absolute_url (MARKITUP_SKIN st))
   \<and> (ap = Some b \<longrightarrow>
      auto_preview (MarkItUpWidget_init st absolute_url super_init attrs markitup_set markitup_skin ap)
      = b)
   \<and> (ap = None \<longrightarrow>
      auto_preview (MarkItUpWidget_init st absolute_url super_init attrs markitup_set markitup_skin ap)
      = MARKITUP_AUTO_PREVIEW st)
   \<and> js (MarkItUpWidget_media st absolute_url
            (MarkItUpWidget_init st absolute_url super_init attrs markitup_set markitup_skin ap))
      = add_paths []
          ((case JQUERY_URL st of None \<Rightarrow> [] | Some u \<Rightarrow> [absolute_url u])
           @ [absolute_url ''markitup/ajax_csrf.js'',
              absolute_url ''markitup/jquery.markitup.js'',
              posixpath_join (absolute_url (py_or markitup_set (MARKITUP_SET st))) ''set.js''])
   \<and> (JQUERY_URL st = Some j \<longrightarrow>
      hd (js (MarkItUpWidget_media st absolute_url
            (MarkItUpWidget_init st absolute_url super_init attrs markitup_set markitup_skin ap)))
      = absolute_url j)"
proof -
  have scripts: "js (MarkItUpWidget_media st absolute_url
            (MarkItUpWidget_init st absolute_url super_init attrs markitup_set markitup_skin ap))
      = add_paths []
          ((case JQUERY_URL st of None \<Rightarrow> [] | Some u \<Rightarrow> [absolute_url u])
           @ [absolute_url ''markitup/ajax_csrf.js'',
              absolute_url ''markitup/jquery.markitup.js'',
              posixpath_join (absolute_url (py_or markitup_set (MARKITUP_SET st))) ''set.js''])"
    by (simp add: MarkItUpWidget_media_def MarkItUpWidget_init_def Media_def add_js_def Let_def)
  have first: "JQUERY_URL st = Some j \<longrightarrow>
      hd (js (MarkItUpWidget_media st absolute_url
            (MarkItUpWidget_init st absolute_url super_init attrs markitup_set markitup_skin ap)))
      = absolute_url j"
    by (simp add: scripts hd_add_paths)
  have fields: "(markitup_set = Some s \<and> s \<noteq> [] \<longrightarrow>
      miu_set (MarkItUpWidget_init st absolute_url super_init attrs markitup_set markitup_skin ap)
      = absolute_url s)
   \<and> (markitup_set = None \<or> markitup_set = Some [] \<longrightarrow>
      miu_set (MarkItUpWidget_init st absolute_url super_init attrs markitup_set markitup_skin ap)
      = absolute_url (MARKITUP_SET st))
   \<and> (markitup_skin = Some k \<and> k \<noteq> [] \<longrightarrow>
      miu_skin (MarkItUpWidget_init st absolute_url super_init attrs markitup_set markitup_skin ap)
      = absolute_url k)
   \<and> (markitup_skin = None \<or> markitup_skin = Some [] \<longrightarrow>
      miu_skin (MarkItUpWidget_init st absolute_url super_init attrs markitup_set markitup_skin ap)
      = absolute_url (MARKITUP_SKIN st))
   \<and> (ap = Some b \<longrightarrow>
      auto_preview (MarkItUpWidget_init st absolute_url super_init attrs markitup_set markitup_skin ap)
      = b)
   \<and> (ap = None \<longrightarrow>
      auto_preview (MarkItUpWidget_init st absolute_url super_init attrs markitup_set markitup_skin ap)
      = MARKITUP_AUTO_PREVIEW st)"
    by (auto simp: MarkItUpWidget_init_def py_or_def)
  from fields scripts first show ?thesis by blast
qed

theorem MarkItUpWidget_init_overrides_witness:
  "miu_set (MarkItUpWidget_init sample_settings sample_absolute_url (\<lambda>a. Map.empty)
       None (Some ''sets/markdown'') None (Some True)) = ''/static/sets/markdown''
   \<and> miu_skin (MarkItUpWidget_init sample_settings sample_absolute_url (\<lambda>a. Map.empty)
       None (Some ''sets/markdown'') None (Some True)) = ''/static/markitup/skins/simple''
   \<and> auto_preview (MarkItUpWidget_init sample_settings sample_absolute_url (\<lambda>a. Map.empty)
       None (Some ''sets/markdown'') None (Some True)) = True
   \<and> js (MarkItUpWidget_media sample_settings sample_absolute_url
        (MarkItUpWidget_init sample_settings sample_absolute_url (\<lambda>a. Map.empty)
           None (Some ''sets/markdown'') None (Some True)))
      = [''/js/jquery.min.js'', ''/static/markitup/ajax_csrf.js'',
         ''/static/markitup/jquery.markitup.js'', ''/static/sets/markdown/set.js'']"
  using MarkItUpWidget_init_overrides
    [where markitup_set = "Some ''sets/markdown''" and s = "''sets/markdown''"
      and st = sample_settings and absolute_url = sample_absolute_url
      and super_init = "\<lambda>a. Map.empty" and attrs = None and markitup_skin = None
      and k = "[]" and ap = "Some True" and b = True and j = "''/js/jquery.min.js''"]
  by (simp add: sample_settings_def sample_absolute_url_def py_or_def posixpath_join_def)

text \<open>
  The claim as stated fails twice: an empty button-set path that is given does not
  take precedence over the setting, and no argument of the constructor changes the
  script-library URL.
\<close>

theorem MarkItUpWidget_init_not_always_overridden:
  "miu_set (MarkItUpWidget_init sample_settings sample_absolute_url (\<lambda>a. Map.empty)
             None (Some []) None None)
     = sample_absolute_url (MARKITUP_SET sample_settings)
   \<and> miu_set (MarkItUpWidget_init sample_settings sample_absolute_url (\<lambda>a. Map.empty)
             None (Some []) None None)
     \<noteq> sample_absolute_url []
   \<and> (\<forall>attrs markitup_set markitup_skin ap.
        hd (js (MarkItUpWidget_media sample_settings sample_absolute_url
                 (MarkItUpWidget_init sample_settings sample_absolute_url (\<lambda>a. Map.empty)
                    attrs markitup_set markitup_skin ap)))
        = sample_absolute_url ''/js/jquery.min.js'')"
  by (simp add: MarkItUpWidget_init_def MarkItUpWidget_media_def Media_def add_js_def
      hd_add_paths py_or_def sample_settings_def sample_absolute_url_def)

text \<open>
  Claim C5, as the code has it. Whatever the skin and button-set paths of the widget
  are, the media's stylesheets, all for the medium \<^verbatim>\<open>screen\<close>, are the skin's
  \<^verbatim>\<open>style.css\<close> and then the button set's \<^verbatim>\<open>style.css\<close>, each the directory joined with
  the file name: exactly two entries when the two joined paths differ, and one entry
  when they are the same path. The scripts contain the editor script
  \<^verbatim>\<open>jquery.markitup.js\<close> and the button set's \<^verbatim>\<open>set.js\<close>.
\<close>

theorem MarkItUpWidget_media_assets:
  "css (MarkItUpWidget_media st absolute_url w) ''screen''
     = Some (if posixpath_join (miu_skin w) ''style.css'' = posixpath_join (miu_set w) ''style.css''
             then [posixpath_join (miu_skin w) ''style.css'']
             else [posixpath_join (miu_skin w) ''style.css'',
                   posixpath_join (miu_set w) ''style.css''])
   \<and> dom (css (MarkItUpWidget_media st absolute_url w)) = {''screen''}
   \<and> absolute_url ''markitup/jquery.markitup.js'' \<in> set (js (MarkItUpWidget_media st absolute_url w))
   \<and> posixpath_join (miu_set w) ''set.js'' \<in> set (js (MarkItUpWidget_media st absolute_url w))"
  by (simp add: MarkItUpWidget_media_def Media_def add_js_def set_add_paths Let_def)

theorem MarkItUpWidget_media_assets_witness:
  "css (MarkItUpWidget_media sample_settings sample_absolute_url (sample_widget None)) ''screen''
     = Some [''/static/markitup/skins/simple/style.css'',
             ''/static/markitup/sets/default/style.css'']
   \<and> ''/static/markitup/jquery.markitup.js''
       \<in> set (js (MarkItUpWidget_media sample_settings sample_absolute_url (sample_widget None)))
   \<and> ''/static/markitup/sets/default/set.js''
       \<in> set (js (MarkItUpWidget_media sample_settings sample_absolute_url (sample_widget None)))"
  using MarkItUpWidget_media_assets [of sample_settings sample_absolute_url "sample_widget None"]
  by (simp add: widget_defs sample_defs posixpath_join_def)

text \<open>
  The claim as stated, exactly two stylesheets for every configuration, fails for a
  widget whose skin and button set are the same directory: the media holds the one
  path once.
\<close>

theorem MarkItUpWidget_media_same_directory_one_stylesheet:
  "css (MarkItUpWidget_media sample_settings sample_absolute_url
         (MarkItUpWidget_init sample_settings sample_absolute_url (\<lambda>a. Map.empty)
            None (Some ''markitup/theme'') (Some ''markitup/theme'') None)) ''screen''
   = Some [''/static/markitup/theme/style.css'']"
  by (simp add: MarkItUpWidget_media_def Media_def MarkItUpWidget_init_def py_or_def
      sample_absolute_url_def posixpath_join_def)

text \<open>
  Claim C10, as the code has it. The scripts are, in this order and a repeated path
  kept once at its first place, the script-library URL when the settings have one,
  \<^verbatim>\<open>ajax_csrf.js\<close>, \<^verbatim>\<open>jquery.markitup.js\<close> and the button set's \<^verbatim>\<open>set.js\<close>. Without a
  script-library URL the list holds the three scripts of the widget and nothing else;
  with one, its URL is the first entry. When no two of the paths are the same, the list
  is exactly the three, or the four, in that order.
\<close>

theorem MarkItUpWidget_media_scripts_order:
  "js (MarkItUpWidget_media st absolute_url w)
     = add_paths []
         ((case JQUERY_URL st of None \<Rightarrow> [] | Some u \<Rightarrow> [absolute_url u])
          @ [absolute_url ''markitup/ajax_csrf.js'',
             absolute_url ''markitup/jquery.markitup.js'',
             posixpath_join (miu_set w) ''set.js''])
   \<and> distinct (js (MarkItUpWidget_media st absolute_url w))
   \<and> (JQUERY_URL st = None \<longrightarrow>
      set (js (MarkItUpWidget_media st absolute_url w))
      = {absolute_url ''markitup/ajax_csrf.js'',
         absolute_url ''markitup/jquery.markitup.js'',
         posixpath_join (miu_set w) ''set.js''})
   \<and> (JQUERY_URL st = Some j \<longrightarrow>
      hd (js (MarkItUpWidget_media st absolute_url w)) = absolute_url j)
   \<and> (JQUERY_URL st = None
       \<and> distinct [absolute_url ''markitup/ajax_csrf.js'',
                   absolute_url ''markitup/jquery.markitup.js'',
                   posixpath_join (miu_set w) ''set.js''] \<longrightarrow>
      js (MarkItUpWidget_media st absolute_url w)
      = [absolute_url ''markitup/ajax_csrf.js'',
         absolute_url ''markitup/jquery.markitup.js'',
         posixpath_join (miu_set w) ''set.js''])
   \<and> (JQUERY_URL st = Some j
       \<and> distinct [absolute_url j,
                   absolute_url ''markitup/ajax_csrf.js'',
                   absolute_url ''markitup/jquery.markitup.js'',
                   posixpath_join (miu_set w) ''set.js''] \<longrightarrow>
      js (MarkItUpWidget_media st absolute_url w)
      = [absolute_url j,
         absolute_url ''markitup/ajax_csrf.js'',
         absolute_url ''markitup/jquery.markitup.js'',
         posixpath_join (miu_set w) ''set.js''])"
proof -
  have scripts: "js (MarkItUpWidget_media st absolute_url w)
     = add_paths []
         ((case JQUERY_URL st of None \<Rightarrow> [] | Some u \<Rightarrow> [absolute_url u])
          @ [absolute_url ''markitup/ajax_csrf.js'',
             absolute_url ''markitup/jquery.markitup.js'',
             posixpath_join (miu_set w) ''set.js''])"
    by (simp add: MarkItUpWidget_media_def Media_def add_js_def Let_def)
  have "distinct (js (MarkItUpWidget_media st absolute_url w))"
    by (simp only: scripts) (rule distinct_add_paths, simp)
  moreover have "JQUERY_URL st = None \<longrightarrow>
      set (js (MarkItUpWidget_media st absolute_url w))
      = {absolute_url ''markitup/ajax_csrf.js'',
         absolute_url ''markitup/jquery.markitup.js'',
         posixpath_join (miu_set w) ''set.js''}"
    unfolding scripts set_add_paths by auto
  moreover have "JQUERY_URL st = Some j \<longrightarrow>
      hd (js (MarkItUpWidget_media st absolute_url w)) = absolute_url j"
    by (simp add: scripts hd_add_paths)
  moreover have "JQUERY_URL st = None
       \<and> distinct [absolute_url ''markitup/ajax_csrf.js'',
                   absolute_url ''markitup/jquery.markitup.js'',
                   posixpath_join (miu_set w) ''set.js''] \<longrightarrow>
      js (MarkItUpWidget_media st absolute_url w)
      = [absolute_url ''markitup/ajax_csrf.js'',
         absolute_url ''markitup/jquery.markitup.js'',
         posixpath_join (miu_set w) ''set.js'']"
    by (simp add: scripts)
  moreover have "JQUERY_URL st = Some j
       \<and> distinct [absolute_url j,
                   absolute_url ''markitup/ajax_csrf.js'',
                   absolute_url ''markitup/jquery.markitup.js'',
                   posixpath_join (miu_set w) ''set.js''] \<longrightarrow>
      js (MarkItUpWidget_media st absolute_url w)
      = [absolute_url j,
         absolute_url ''markitup/ajax_csrf.js'',
         absolute_url ''markitup/jquery.markitup.js'',
         posixpath_join (miu_set w) ''set.js'']"
    by (simp add: scripts)
  ultimately show ?thesis using scripts by blast
qed

theorem MarkItUpWidget_media_scripts_order_witness:
  "JQUERY_URL (sample_settings\<lparr>JQUERY_URL := None\<rparr>) = None
   \<and> js (MarkItUpWidget_media (sample_settings\<lparr>JQUERY_URL := None\<rparr>) sample_absolute_url (sample_widget None))
      = [''/static/markitup/ajax_csrf.js'', ''/static/markitup/jquery.markitup.js'',
         ''/static/markitup/sets/default/set.js'']
   \<and> JQUERY_URL sample_settings = Some ''/js/jquery.min.js''
   \<and> js (MarkItUpWidget_media sample_settings sample_absolute_url (sample_widget None))
      = [''/js/jquery.min.js'', ''/static/markitup/ajax_csrf.js'', ''/static/markitup/jquery.markitup.js'',
         ''/static/markitup/sets/default/set.js'']"
  using MarkItUpWidget_media_scripts_order
      [where st = "sample_settings\<lparr>JQUERY_URL := None\<rparr>" and absolute_url = sample_absolute_url
        and w = "sample_widget None" and j = "[]"]
    MarkItUpWidget_media_scripts_order
      [where st = sample_settings and absolute_url = sample_absolute_url
        and w = "sample_widget None" and j = "''/js/jquery.min.js''"]
  by (simp add: widget_defs sample_defs posixpath_join_def)

text \<open>
  The claim as stated, that the script-library URL is always followed by all three
  scripts of the widget, fails where the settings name one of them as the
  script-library URL: the repeated path is kept once, at the front.
\<close>

theorem MarkItUpWidget_media_repeated_script_kept_once:
  "JQUERY_URL (sample_settings\<lparr>JQUERY_URL := Some ''markitup/jquery.markitup.js''\<rparr>)
     = Some ''markitup/jquery.markitup.js''
   \<and> js (MarkItUpWidget_media (sample_settings\<lparr>JQUERY_URL := Some ''markitup/jquery.markitup.js''\<rparr>)
         sample_absolute_url (sample_widget None))
      = [''/static/markitup/jquery.markitup.js'', ''/static/markitup/ajax_csrf.js'',
         ''/static/markitup/sets/default/set.js'']"
  by (simp add: MarkItUpWidget_media_def Media_def add_js_def widget_defs sample_defs posixpath_join_def)

section \<open>The attribute hook and the two signatures\<close>

text \<open>
  Claim C6. The default hook returns the attributes it is given. Under either
  signature \<^verbatim>\<open>build_attrs\<close> returns the hook's result on the attributes the framework
  merged, so a hook that adds a marker attribute makes the marker part of the result
  under both.
\<close>

theorem build_attrs_runs_hook:
  "build_attrs_extra attrs = attrs
   \<and> build_attrs_new h hook sa base_attrs extra_attrs
       = hook (Widget_build_attrs_new h sa base_attrs extra_attrs)
   \<and> build_attrs_old h hook sa extra_attrs kwargs
       = hook (Widget_build_attrs_old h sa extra_attrs kwargs)
   \<and> build_attrs_new h (\<lambda>a. a(marker \<mapsto> m)) sa base_attrs extra_attrs marker = Some m
   \<and> build_attrs_old h (\<lambda>a. a(marker \<mapsto> m)) sa extra_attrs kwargs marker = Some m"
  by (simp add: build_attrs_extra_def build_attrs_new_def build_attrs_old_def)

theorem build_attrs_runs_hook_witness:
  "build_attrs_new (sample_host True with_preview_route) (\<lambda>a. a(''data-editor'' \<mapsto> PyStr ''1''))
      Map.empty [''id'' \<mapsto> PyStr ''id_body''] None ''data-editor'' = Some (PyStr ''1'')
   \<and> build_attrs_new (sample_host True with_preview_route) (\<lambda>a. a(''data-editor'' \<mapsto> PyStr ''1''))
      Map.empty [''id'' \<mapsto> PyStr ''id_body''] None ''id'' = Some (PyStr ''id_body'')
   \<and> build_attrs_old (sample_host False with_preview_route) (\<lambda>a. a(''data-editor'' \<mapsto> PyStr ''1''))
      Map.empty None [''name'' \<mapsto> PyStr ''body''] ''data-editor'' = Some (PyStr ''1'')
   \<and> build_attrs_old (sample_host False with_preview_route) (\<lambda>a. a(''data-editor'' \<mapsto> PyStr ''1''))
      Map.empty None [''name'' \<mapsto> PyStr ''body''] ''name'' = Some (PyStr ''body'')"
  using build_attrs_runs_hook
      [where h = "sample_host True with_preview_route"
        and hook = "\<lambda>a. a(''data-editor'' \<mapsto> PyStr ''1'')" and sa = Map.empty
        and base_attrs = "[''id'' \<mapsto> PyStr ''id_body'']" and extra_attrs = None
        and marker = "''data-editor''" and m = "PyStr ''1''"]
    build_attrs_runs_hook
      [where h = "sample_host False with_preview_route"
        and hook = "\<lambda>a. a(''data-editor'' \<mapsto> PyStr ''1'')" and sa = Map.empty
        and extra_attrs = None and kwargs = "[''name'' \<mapsto> PyStr ''body'']"
        and marker = "''data-editor''" and m = "PyStr ''1''"]
  by (simp add: sample_defs build_attrs_new_def build_attrs_old_def)

text \<open>
  Claim C7. \<^verbatim>\<open>build_attrs_compat\<close> takes the base attributes and the optional extra
  attributes under both signatures. Under the new one it is \<^verbatim>\<open>build_attrs\<close>. Under the old
  one it is the hook applied to the base attributes updated by the extra ones when
  they are given, and to the base attributes otherwise. The two return the same
  whenever the framework's new \<^verbatim>\<open>build_attrs\<close> is the merge that lines 62 to 66 copy.
\<close>

theorem build_attrs_compat_variants:
  "(new_style_build_attrs h \<longrightarrow>
      build_attrs_compat h hook sa base_attrs extra_attrs
      = build_attrs_new h hook sa base_attrs extra_attrs)
   \<and> (\<not> new_style_build_attrs h \<longrightarrow>
      build_attrs_compat h hook sa base_attrs (Some e) = hook (base_attrs ++ e)
      \<and> build_attrs_compat h hook sa base_attrs None = hook base_attrs)
   \<and> (Widget_build_attrs_new h = framework_build_attrs_new \<longrightarrow>
      build_attrs_compat (h\<lparr>new_style_build_attrs := True\<rparr>) hook sa base_attrs extra_attrs
      = build_attrs_compat (h\<lparr>new_style_build_attrs := False\<rparr>) hook sa base_attrs extra_attrs)"
  by (simp add: build_attrs_compat_def build_attrs_compat_new_def build_attrs_compat_old_def
      build_attrs_new_def framework_build_attrs_new_def split: option.splits)

theorem build_attrs_compat_variants_witness:
  "new_style_build_attrs (sample_host True no_routes)
   \<and> \<not> new_style_build_attrs (sample_host False no_routes)
   \<and> Widget_build_attrs_new (sample_host True no_routes) = framework_build_attrs_new
   \<and> build_attrs_compat (sample_host True no_routes) build_attrs_extra Map.empty
        [''id'' \<mapsto> PyStr ''a'', ''rows'' \<mapsto> PyStr ''10''] (Some [''id'' \<mapsto> PyStr ''b'']) ''id''
      = Some (PyStr ''b'')
   \<and> build_attrs_compat (sample_host False no_routes) build_attrs_extra Map.empty
        [''id'' \<mapsto> PyStr ''a'', ''rows'' \<mapsto> PyStr ''10''] (Some [''id'' \<mapsto> PyStr ''b''])
      = build_attrs_extra ([''id'' \<mapsto> PyStr ''a'', ''rows'' \<mapsto> PyStr ''10''] ++ [''id'' \<mapsto> PyStr ''b''])
   \<and> build_attrs_compat (sample_host True no_routes) build_attrs_extra Map.empty
        [''id'' \<mapsto> PyStr ''a'', ''rows'' \<mapsto> PyStr ''10''] (Some [''id'' \<mapsto> PyStr ''b''])
      = build_attrs_compat (sample_host False no_routes) build_attrs_extra Map.empty
        [''id'' \<mapsto> PyStr ''a'', ''rows'' \<mapsto> PyStr ''10''] (Some [''id'' \<mapsto> PyStr ''b''])"
  using build_attrs_compat_variants
      [where h = "sample_host False no_routes" and hook = build_attrs_extra and sa = Map.empty
        and base_attrs = "[''id'' \<mapsto> PyStr ''a'', ''rows'' \<mapsto> PyStr ''10'']"
        and extra_attrs = "Some [''id'' \<mapsto> PyStr ''b'']" and e = "[''id'' \<mapsto> PyStr ''b'']"]
    build_attrs_compat_variants
      [where h = "sample_host True no_routes" and hook = build_attrs_extra and sa = Map.empty
        and base_attrs = "[''id'' \<mapsto> PyStr ''a'', ''rows'' \<mapsto> PyStr ''10'']"
        and extra_attrs = "Some [''id'' \<mapsto> PyStr ''b'']" and e = "[''id'' \<mapsto> PyStr ''b'']"]
  by (simp add: sample_host_def build_attrs_new_def framework_build_attrs_new_def build_attrs_extra_def)

section \<open>The admin variant\<close>

text \<open>
  Claim C8. Let the framework's old \<^verbatim>\<open>build_attrs\<close> be the dictionary merge, and let its
  admin text-area constructor differ from the plain one in the \<^verbatim>\<open>class\<close> attribute only.
  For every field name, value and attribute mapping, and the same constructor
  arguments, the admin widget gets the same editor markup as \<^verbatim>\<open>MarkItUpWidget\<close>; it is
  that widget with the \<^verbatim>\<open>class\<close> attribute of its text-area replaced, so the outputs
  differ in the text-area's styling alone; and its \<^verbatim>\<open>render\<close> and media are those of
  \<^verbatim>\<open>MarkItUpWidget\<close>.
\<close>

theorem AdminMarkItUpWidget_same_editor:
  assumes "Widget_build_attrs_old h = framework_build_attrs_old"
    and "\<forall>k. k \<noteq> ''class'' \<longrightarrow> AdminTextareaWidget_init h a k = Textarea_init h a k"
  shows "editor_markup h build_attrs_extra
           (AdminMarkItUpWidget_init h st absolute_url a markitup_set markitup_skin ap) name attrs
         = editor_markup h build_attrs_extra
           (MarkItUpWidget_init st absolute_url (Textarea_init h) a markitup_set markitup_skin ap) name attrs
    \<and> AdminMarkItUpWidget_init h st absolute_url a markitup_set markitup_skin ap
       = (MarkItUpWidget_init st absolute_url (Textarea_init h) a markitup_set markitup_skin ap)
           \<lparr>self_attrs := (Textarea_init h a)(''class'' := AdminTextareaWidget_init h a ''class'')\<rparr>
    \<and> AdminMarkItUpWidget_render h build_attrs_extra
           (AdminMarkItUpWidget_init h st absolute_url a markitup_set markitup_skin ap) name v attrs
       = MarkItUpWidget_render h build_attrs_extra
           (AdminMarkItUpWidget_init h st absolute_url a markitup_set markitup_skin ap) name v attrs
    \<and> MarkItUpWidget_media st absolute_url
           (AdminMarkItUpWidget_init h st absolute_url a markitup_set markitup_skin ap)
       = MarkItUpWidget_media st absolute_url
           (MarkItUpWidget_init st absolute_url (Textarea_init h) a markitup_set markitup_skin ap)"
proof (intro conjI)
  show "editor_markup h build_attrs_extra
           (AdminMarkItUpWidget_init h st absolute_url a markitup_set markitup_skin ap) name attrs
         = editor_markup h build_attrs_extra
           (MarkItUpWidget_init st absolute_url (Textarea_init h) a markitup_set markitup_skin ap) name attrs"
    using assms(2)
    by (intro editor_markup_class_independent [OF assms(1)])
       (simp_all add: AdminMarkItUpWidget_init_def MarkItUpWidget_init_def)
  have "AdminTextareaWidget_init h a
      = (Textarea_init h a)(''class'' := AdminTextareaWidget_init h a ''class'')"
    using assms(2) by (intro ext) simp
  then show "AdminMarkItUpWidget_init h st absolute_url a markitup_set markitup_skin ap
       = (MarkItUpWidget_init st absolute_url (Textarea_init h) a markitup_set markitup_skin ap)
           \<lparr>self_attrs := (Textarea_init h a)(''class'' := AdminTextareaWidget_init h a ''class'')\<rparr>"
    by (simp add: AdminMarkItUpWidget_init_def MarkItUpWidget_init_def)
  show "AdminMarkItUpWidget_render h build_attrs_extra
           (AdminMarkItUpWidget_init h st absolute_url a markitup_set markitup_skin ap) name v attrs
       = MarkItUpWidget_render h build_attrs_extra
           (AdminMarkItUpWidget_init h st absolute_url a markitup_set markitup_skin ap) name v attrs"
    by (simp add: AdminMarkItUpWidget_render_def)
  show "MarkItUpWidget_media st absolute_url
           (AdminMarkItUpWidget_init h st absolute_url a markitup_set markitup_skin ap)
       = MarkItUpWidget_media st absolute_url
           (MarkItUpWidget_init st absolute_url (Textarea_init h) a markitup_set markitup_skin ap)"
    by (simp add: MarkItUpWidget_media_def AdminMarkItUpWidget_init_def MarkItUpWidget_init_def)
qed

theorem AdminMarkItUpWidget_same_editor_witness:
  "Widget_build_attrs_old (sample_host False with_preview_route) = framework_build_attrs_old
   \<and> AdminMarkItUpWidget_render (sample_host False with_preview_route) build_attrs_extra
        (AdminMarkItUpWidget_init (sample_host False with_preview_route) sample_settings sample_absolute_url
           None None None None)
        ''body'' (PyStr ''hello'') (Some [''id'' \<mapsto> PyStr ''id_body''])
      = ([GetAttr (PyStr ''hello'') ''raw''],
         Inr (SafeText ''<textarea class=vLargeTextField name=body>hello</textarea><script>id_body,false,/markitup/preview/</script>''))
   \<and> MarkItUpWidget_render (sample_host False with_preview_route) build_attrs_extra
        (MarkItUpWidget_init sample_settings sample_absolute_url
           (Textarea_init (sample_host False with_preview_route)) None None None None)
        ''body'' (PyStr ''hello'') (Some [''id'' \<mapsto> PyStr ''id_body''])
      = ([GetAttr (PyStr ''hello'') ''raw''],
         Inr (SafeText ''<textarea class= name=body>hello</textarea><script>id_body,false,/markitup/preview/</script>''))
   \<and> editor_markup (sample_host False with_preview_route) build_attrs_extra
        (AdminMarkItUpWidget_init (sample_host False with_preview_route) sample_settings sample_absolute_url
           None None None None) ''body'' (Some [''id'' \<mapsto> PyStr ''id_body''])
      = editor_markup (sample_host False with_preview_route) build_attrs_extra
        (MarkItUpWidget_init sample_settings sample_absolute_url
           (Textarea_init (sample_host False with_preview_route)) None None None None)
        ''body'' (Some [''id'' \<mapsto> PyStr ''id_body''])"
proof -
  let ?h = "sample_host False with_preview_route"
  have h1: "Widget_build_attrs_old ?h = framework_build_attrs_old"
    by (simp add: sample_host_def)
  have h2: "\<forall>k. k \<noteq> ''class'' \<longrightarrow> AdminTextareaWidget_init ?h None k = Textarea_init ?h None k"
    by (simp add: sample_host_def dict_or_empty_def map_add_def)
  show ?thesis
    using AdminMarkItUpWidget_same_editor [OF h1 h2, of sample_settings sample_absolute_url None None None
        "''body''" "Some [''id'' \<mapsto> PyStr ''id_body'']" "PyStr ''hello''"] h1
    by (simp add: widget_defs sample_defs AdminMarkItUpWidget_render_def AdminMarkItUpWidget_init_def)
qed

end
